theory Spec2Isabelle
  imports Main "HOL-Library.Sublist"
begin

section \<open>Characters and strings\<close>

text \<open>
  A Python \<open>str\<close> is a sequence of code points. The development reads a \<open>char\<close> as
  a code point below 256, so a \<open>string\<close> is a Python text over that range and
  \<open>length\<close> counts what \<open>len\<close> counts. The character classes are the ones Python's
  \<open>re\<close> and \<open>str\<close> use on that range: \<open>\d\<close> is \<open>0\<close>..\<open>9\<close>; \<open>\s\<close> and \<open>str.strip\<close>
  take the ASCII white space, the four separators 28..31, NEL (133) and the no-break
  space (160); \<open>\w\<close> is alphanumeric or underscore. Under \<open>re.I\<close> a pattern letter of
  the ASCII range matches exactly its two cases on this range.
\<close>

definition is_digit :: "char \<Rightarrow> bool" where
  "is_digit c \<longleftrightarrow> 48 \<le> (of_char c :: nat) \<and> (of_char c :: nat) \<le> 57"

definition is_space :: "char \<Rightarrow> bool" where
  "is_space c \<longleftrightarrow> (of_char c :: nat) \<in> {9, 10, 11, 12, 13, 28, 29, 30, 31, 32, 133, 160}"

definition is_upper_ascii :: "char \<Rightarrow> bool" where
  "is_upper_ascii c \<longleftrightarrow> 65 \<le> (of_char c :: nat) \<and> (of_char c :: nat) \<le> 90"

definition is_lower_ascii :: "char \<Rightarrow> bool" where
  "is_lower_ascii c \<longleftrightarrow> 97 \<le> (of_char c :: nat) \<and> (of_char c :: nat) \<le> 122"

definition is_word :: "char \<Rightarrow> bool" where
  "is_word c \<longleftrightarrow>
     is_digit c \<or> is_upper_ascii c \<or> is_lower_ascii c \<or> c = CHR ''_'' \<or>
     (of_char c :: nat) \<in> {170, 178, 179, 181, 185, 186, 188, 189, 190} \<or>
     (192 \<le> (of_char c :: nat) \<and> (of_char c :: nat) \<noteq> 215 \<and> (of_char c :: nat) \<noteq> 247)"

definition lower :: "char \<Rightarrow> char" where
  "lower c = (if is_upper_ascii c then char_of ((of_char c :: nat) + 32) else c)"

definition upper :: "char \<Rightarrow> char" where
  "upper c = (if is_lower_ascii c then char_of ((of_char c :: nat) - 32) else c)"

text \<open>\<open>str.strip()\<close>: white space removed at both ends.\<close>

definition strip :: "string \<Rightarrow> string" where
  "strip s = rev (dropWhile is_space (rev (dropWhile is_space s)))"

text \<open>\<open>s.startswith(p)\<close> under \<open>re.I\<close>: the literal \<open>p\<close> matches at the start of \<open>s\<close>.\<close>

definition ci_prefix :: "string \<Rightarrow> string \<Rightarrow> bool" where
  "ci_prefix p s \<longleftrightarrow> length p \<le> length s \<and> map lower (take (length p) s) = map lower p"

text \<open>The first alternative of a list that matches at the start of \<open>s\<close>, as the text
  spells it (the value of the group).\<close>

fun first_alt :: "string list \<Rightarrow> string \<Rightarrow> string option" where
  "first_alt [] s = None"
| "first_alt (p # ps) s = (if ci_prefix p s then Some (take (length p) s) else first_alt ps s)"

section \<open>Numbers: \<open>float\<close>, \<open>int\<close> and \<open>str\<close>\<close>

datatype exn = ValueError | OverflowError

text \<open>
  A Python float that is not negative and not a NaN: \<open>Finite m e\<close> is the binary64
  value \<open>m * 2 ^ e\<close>, \<open>Infinity\<close> is \<open>inf\<close>.
\<close>

datatype pyfloat = Finite nat int | Infinity

text \<open>A fraction \<open>(p, q)\<close> stands for the rational number \<open>p / q\<close>.\<close>

type_synonym frac = "nat \<times> nat"

definition scale_down :: "frac \<Rightarrow> int \<Rightarrow> frac" where
  "scale_down f e = (if 0 \<le> e then (fst f, snd f * 2 ^ nat e) else (fst f * 2 ^ nat (- e), snd f))"

definition round_half_even :: "frac \<Rightarrow> nat" where
  "round_half_even f =
     (let fl = fst f div snd f; r = fst f mod snd f
      in if 2 * r < snd f then fl
         else if snd f < 2 * r then fl + 1
         else if even fl then fl else fl + 1)"

fun bit_length :: "nat \<Rightarrow> nat" where
  "bit_length n = (if n = 0 then 0 else Suc (bit_length (n div 2)))"

declare bit_length.simps [simp del]

text \<open>The integer \<open>e\<close> with \<open>2 ^ e \<le> p / q < 2 ^ (e + 1)\<close>, for positive \<open>p\<close> and \<open>q\<close>.\<close>

definition floor_log2 :: "nat \<Rightarrow> nat \<Rightarrow> int" where
  "floor_log2 p q =
     (let d = int (bit_length p) - int (bit_length q)
      in if (if 0 \<le> d then q * 2 ^ nat d \<le> p else q \<le> p * 2 ^ nat (- d)) then d else d - 1)"

text \<open>
  The binary64 value nearest to \<open>p / q\<close>, ties to even: 53 bits of mantissa, the least
  exponent \<open>-1074\<close>, and \<open>inf\<close> from \<open>2 ^ 1024\<close> on. This is what \<open>float(s)\<close> returns for a
  decimal numeral and what the product of two floats returns for its exact value.
\<close>

definition round_to_double :: "nat \<Rightarrow> nat \<Rightarrow> pyfloat" where
  "round_to_double p q =
     (if p = 0 then Finite 0 0
      else let e = max (floor_log2 p q - 52) (- 1074);
               m = round_half_even (scale_down (p, q) e)
           in if 0 \<le> e \<and> 2 ^ 1024 \<le> m * 2 ^ nat e then Infinity else Finite m e)"

definition float_value :: "nat \<Rightarrow> int \<Rightarrow> frac" where
  "float_value m e = (if 0 \<le> e then (m * 2 ^ nat e, 1) else (m, 2 ^ nat (- e)))"

text \<open>\<open>x * k\<close> for a float \<open>x\<close> and a positive int \<open>k\<close> below \<open>2 ^ 53\<close>.\<close>

fun float_mul :: "pyfloat \<Rightarrow> nat \<Rightarrow> pyfloat" where
  "float_mul Infinity k = Infinity"
| "float_mul (Finite m e) k = round_to_double (fst (float_value m e) * k) (snd (float_value m e))"

text \<open>\<open>int(x)\<close>: truncation; \<open>int(inf)\<close> raises \<open>OverflowError\<close>.\<close>

fun int_of_float :: "pyfloat \<Rightarrow> exn + nat" where
  "int_of_float Infinity = Inl OverflowError"
| "int_of_float (Finite m e) = Inr (fst (float_value m e) div snd (float_value m e))"

definition digit_val :: "char \<Rightarrow> nat" where
  "digit_val c = of_char c - 48"

definition nat_of_digits :: "string \<Rightarrow> nat" where
  "nat_of_digits ds = foldl (\<lambda>acc c. 10 * acc + digit_val c) 0 ds"

text \<open>
  \<open>float(s)\<close> for a text \<open>s\<close> of digits and dots, the only texts the size pattern hands
  to it: a numeral with at most one dot and at least one digit is read as a decimal
  and rounded; anything else raises \<open>ValueError\<close>.
\<close>

definition py_float :: "string \<Rightarrow> exn + pyfloat" where
  "py_float s =
     (let ip = takeWhile is_digit s; r = dropWhile is_digit s;
          fp = (case r of [] \<Rightarrow> [] | c # t \<Rightarrow> t)
      in if (r = [] \<or> (hd r = CHR ''.'' \<and> list_all is_digit fp)) \<and> ip @ fp \<noteq> []
         then Inr (round_to_double (nat_of_digits (ip @ fp)) (10 ^ length fp))
         else Inl ValueError)"

text \<open>\<open>str(n)\<close> for a natural number.\<close>

fun str_nat :: "nat \<Rightarrow> string" where
  "str_nat n = (if n < 10 then [char_of (48 + n)] else str_nat (n div 10) @ [char_of (48 + n mod 10)])"

declare str_nat.simps [simp del]

section \<open>\<open>_convert_size_to_bytes\<close>\<close>

definition is_numch :: "char \<Rightarrow> bool" where
  "is_numch c \<longleftrightarrow> is_digit c \<or> c = CHR ''.''"

definition units :: "string list" where
  "units = [''MB'', ''KB'', ''GB'', ''B'']"

text \<open>
  \<open>re.match(r'([\d.]+)\s*(MB|KB|GB|B)', s, re.I)\<close>: the two groups of the match at the
  start of \<open>s\<close>. No unit starts with a digit, a dot or white space, so the match, when
  there is one, takes the longest run of digits and dots and the longest run of white
  space after it; giving characters back cannot make a unit match.
\<close>

definition size_match :: "string \<Rightarrow> (string \<times> string) option" where
  "size_match s =
     (let g1 = takeWhile is_numch s
      in if g1 = [] then None
         else (case first_alt units (dropWhile is_space (dropWhile is_numch s)) of
                 None \<Rightarrow> None
               | Some g2 \<Rightarrow> Some (g1, g2)))"

text \<open>\<open>multipliers.get(unit, 1)\<close>.\<close>

definition multiplier :: "string \<Rightarrow> nat" where
  "multiplier u =
     (if u = ''B'' then 1
      else if u = ''KB'' then 1024
      else if u = ''MB'' then 1024 * 1024
      else if u = ''GB'' then 1024 * 1024 * 1024
      else 1)"

text \<open>The argument is \<open>None\<close> for Python's \<open>None\<close>.\<close>

definition convert_size_to_bytes :: "string option \<Rightarrow> exn + string" where
  "convert_size_to_bytes size_str =
     (case size_str of
        None \<Rightarrow> Inr ''0''
      | Some s \<Rightarrow>
          if s = [] then Inr ''0''
          else (case size_match s of
                  None \<Rightarrow> Inr ''0''
                | Some (g1, g2) \<Rightarrow>
                    (case py_float g1 of
                       Inl e \<Rightarrow> Inl e
                     | Inr v \<Rightarrow>
                         (case int_of_float (float_mul v (multiplier (map upper g2))) of
                            Inl e \<Rightarrow> Inl e
                          | Inr n \<Rightarrow> Inr (str_nat n)))))"

section \<open>The patterns of the result parser\<close>

text \<open>
  \<open>re.search\<close> tries the pattern at every position from the left and returns the
  first match; \<open>search_from m prev s\<close> does so for a matcher \<open>m\<close>, which is given the
  character before the position (for \<open>\b\<close>) and the text from the position on.
\<close>

fun search_from :: "(char option \<Rightarrow> string \<Rightarrow> 'a option) \<Rightarrow> char option \<Rightarrow> string \<Rightarrow> 'a option" where
  "search_from m prev [] = m prev []"
| "search_from m prev (c # cs) =
     (case m prev (c # cs) of Some g \<Rightarrow> Some g | None \<Rightarrow> search_from m (Some c) cs)"

definition next_char :: "string \<Rightarrow> char option" where
  "next_char s = (case s of [] \<Rightarrow> None | c # _ \<Rightarrow> Some c)"

definition last_char :: "string \<Rightarrow> char option" where
  "last_char s = (if s = [] then None else Some (last s))"

text \<open>\<open>\b\<close> between two neighbours, \<open>None\<close> standing for the start or the end of the text.\<close>

definition word_boundary :: "char option \<Rightarrow> char option \<Rightarrow> bool" where
  "word_boundary a b \<longleftrightarrow>
     (case a of None \<Rightarrow> False | Some c \<Rightarrow> is_word c) \<noteq> (case b of None \<Rightarrow> False | Some c \<Rightarrow> is_word c)"

text \<open>\<open>(p1|p2|...)\b\<close> at the start of \<open>s\<close>: the first alternative that matches and ends
  at a word boundary.\<close>

fun first_alt_b :: "string list \<Rightarrow> string \<Rightarrow> string option" where
  "first_alt_b [] s = None"
| "first_alt_b (p # ps) s =
     (if ci_prefix p s \<and> word_boundary (last_char (take (length p) s)) (next_char (drop (length p) s))
      then Some (take (length p) s) else first_alt_b ps s)"

text \<open>\<open>\b(p1|p2|...)\b\<close> at a position.\<close>

definition words_at :: "string list \<Rightarrow> char option \<Rightarrow> string \<Rightarrow> string option" where
  "words_at ps prev s = (if word_boundary prev (next_char s) then first_alt_b ps s else None)"

definition formats :: "string list" where
  "formats = [''epub'', ''pdf'', ''mobi'', ''azw3'', ''djvu'', ''txt'']"

definition languages :: "string list" where
  "languages = [''English'', ''Spanish'', ''French'', ''German'', ''Italian'', ''Portuguese'',
     ''Dutch'', ''Russian'', ''Japanese'', ''Chinese'']"

text \<open>\<open>/md5/([a-f0-9]+)\<close> at a position (no \<open>re.I\<close> here).\<close>

definition is_hex :: "char \<Rightarrow> bool" where
  "is_hex c \<longleftrightarrow> is_digit c \<or> (97 \<le> (of_char c :: nat) \<and> (of_char c :: nat) \<le> 102)"

definition md5_at :: "char option \<Rightarrow> string \<Rightarrow> string option" where
  "md5_at prev s =
     (if prefix ''/md5/'' s
      then (let g = takeWhile is_hex (drop 5 s) in if g = [] then None else Some g)
      else None)"

text \<open>\<open>sub in s\<close>.\<close>

definition contains :: "string \<Rightarrow> string \<Rightarrow> bool" where
  "contains sub s \<longleftrightarrow> search_from (\<lambda>prev t. if prefix sub t then Some () else None) None s \<noteq> None"

text \<open>
  \<open>\bby\s+([^|,\n\r]+)\<close> under \<open>re.I\<close>. The class of the group holds white space other
  than the two line ends, so the white space before the group is matched with
  backtracking: as much as possible first, and one character less whenever the group
  cannot start after it.
\<close>

definition is_author_ch :: "char \<Rightarrow> bool" where
  "is_author_ch c \<longleftrightarrow> c \<noteq> CHR ''|'' \<and> c \<noteq> CHR '','' \<and> (of_char c :: nat) \<noteq> 10 \<and> (of_char c :: nat) \<noteq> 13"

definition author_group :: "string \<Rightarrow> string option" where
  "author_group s = (let g = takeWhile is_author_ch s in if g = [] then None else Some g)"

fun ws_then_author :: "string \<Rightarrow> string option" where
  "ws_then_author [] = None"
| "ws_then_author (c # cs) =
     (case (if is_space c then ws_then_author cs else None) of
        Some g \<Rightarrow> Some g
      | None \<Rightarrow> author_group (c # cs))"

definition author_at :: "char option \<Rightarrow> string \<Rightarrow> string option" where
  "author_at prev s =
     (if word_boundary prev (next_char s) \<and> ci_prefix ''by'' s
      then (case drop 2 s of
              [] \<Rightarrow> None
            | c # cs \<Rightarrow> if is_space c then ws_then_author cs else None)
      else None)"

text \<open>\<open>s.strip(chars)\<close>.\<close>

definition strip_chars :: "string \<Rightarrow> string \<Rightarrow> string" where
  "strip_chars chars s = rev (dropWhile (\<lambda>c. c \<in> set chars) (rev (dropWhile (\<lambda>c. c \<in> set chars) s)))"

text \<open>\<open>([\d.]+)\s*(MB|KB|GB|B)\b\<close> at a position, under \<open>re.I\<close>; as in \<open>size_match\<close>, giving
  characters back cannot make the unit match.\<close>

definition size_at :: "char option \<Rightarrow> string \<Rightarrow> (string \<times> string) option" where
  "size_at prev s =
     (let g1 = takeWhile is_numch s
      in if g1 = [] then None
         else (case first_alt_b units (dropWhile is_space (dropWhile is_numch s)) of
                 None \<Rightarrow> None
               | Some g2 \<Rightarrow> Some (g1, g2)))"

section \<open>The parsed document\<close>

text \<open>
  The HTML parser and the navigation of its tree belong to the BeautifulSoup library.
  The document is the list of its \<open>a\<close> elements in document order, each with what the
  loop reads off it: the \<open>href\<close> attribute (\<open>None\<close> when absent), the text nodes below
  the anchor and its container, \<open>link.find_parent(['article', 'li', 'div']) or
  link.parent\<close>. Of the container the loop reads the text nodes and those of its first
  \<open>h1\<close>, \<open>h2\<close>, \<open>h3\<close> or \<open>strong\<close> descendant (\<open>None\<close> when it has none).
\<close>

record container =
  c_strings :: "string list"
  c_heading :: "string list option"

record anchor =
  a_href :: "string option"
  a_strings :: "string list"
  a_container :: "container option"

fun join :: "string \<Rightarrow> string list \<Rightarrow> string" where
  "join sep [] = []"
| "join sep [x] = x"
| "join sep (x # y # ys) = x @ sep @ join sep (y # ys)"

text \<open>\<open>tag.get_text(sep, strip=True)\<close>: every text node stripped, the empty ones left
  out, the rest joined.\<close>

definition get_text :: "string \<Rightarrow> string list \<Rightarrow> string" where
  "get_text sep strings = join sep (filter (\<lambda>s. s \<noteq> []) (map strip strings))"

section \<open>\<open>_parse_search_results\<close>\<close>

text \<open>A raw record is a Python dict from keys to texts.\<close>

type_synonym book = "string \<rightharpoonup> string"

definition BASE_URL :: string where
  "BASE_URL = ''https://annas-archive.org''"

definition context_text_of :: "anchor \<Rightarrow> string" where
  "context_text_of link =
     (case a_container link of
        Some c \<Rightarrow> get_text '' '' (c_strings c)
      | None \<Rightarrow> get_text '' '' (a_strings link))"

definition derive_title :: "anchor \<Rightarrow> string" where
  "derive_title link =
     (let title = get_text [] (a_strings link);
          title = (if title = [] \<and> a_container link \<noteq> None
                   then (case c_heading (the (a_container link)) of
                           Some h \<Rightarrow> get_text '' '' h
                         | None \<Rightarrow> title)
                   else title);
          title = (if title = [] \<and> a_container link \<noteq> None
                   then take 200 (context_text_of link) else title)
      in title)"

definition make_book :: "string \<Rightarrow> string \<Rightarrow> string \<Rightarrow> string \<Rightarrow> book" where
  "make_book href title md5 context_text =
     (let book = [''link'' \<mapsto> (if prefix ''/'' href then BASE_URL @ href else href),
                  ''title'' \<mapsto> title,
                  ''md5'' \<mapsto> md5];
          book = (case search_from author_at None context_text of
                    Some g \<Rightarrow> book(''author'' \<mapsto> strip_chars '' -'' g)
                  | None \<Rightarrow> book);
          book = (case search_from (words_at formats) None context_text of
                    Some g \<Rightarrow> book(''extension'' \<mapsto> map lower g)
                  | None \<Rightarrow> book);
          book = (case search_from size_at None context_text of
                    Some (g1, g2) \<Rightarrow> book(''size'' \<mapsto> g1 @ g2)
                  | None \<Rightarrow> book);
          book = (case search_from (words_at languages) None context_text of
                    Some g \<Rightarrow> book(''language'' \<mapsto> g)
                  | None \<Rightarrow> book)
      in book)"

text \<open>
  One pass of the loop body over a link: the new set of seen identifiers, and the
  record that is appended (\<open>None\<close> for every \<open>continue\<close>).
\<close>

definition parse_link :: "anchor \<Rightarrow> string set \<Rightarrow> string set \<times> book option" where
  "parse_link link seen_md5 =
     (let href = (case a_href link of None \<Rightarrow> [] | Some h \<Rightarrow> h)
      in if href = [] \<or> \<not> contains ''/md5/'' href then (seen_md5, None)
         else (case search_from md5_at None href of
                 None \<Rightarrow> (seen_md5, None)
               | Some md5 \<Rightarrow>
                   if md5 \<in> seen_md5 then (seen_md5, None)
                   else (let seen_md5 = insert md5 seen_md5;
                             title = derive_title link
                         in if title = [] \<or> length title < 3 then (seen_md5, None)
                            else (seen_md5, Some (make_book href title md5 (context_text_of link))))))"

fun parse_loop :: "anchor list \<Rightarrow> string set \<Rightarrow> book list \<Rightarrow> book list" where
  "parse_loop [] seen_md5 books = books"
| "parse_loop (link # links) seen_md5 books =
     (case parse_link link seen_md5 of
        (seen_md5, None) \<Rightarrow> parse_loop links seen_md5 books
      | (seen_md5, Some book) \<Rightarrow>
          (let books = books @ [book]
           in if 25 \<le> length books then books else parse_loop links seen_md5 books))"

text \<open>\<open>soup.find_all('a', href=re.compile(r'/md5/[a-f0-9]+'))\<close>.\<close>

definition md5_links :: "anchor list \<Rightarrow> anchor list" where
  "md5_links doc =
     filter (\<lambda>a. case a_href a of None \<Rightarrow> False | Some h \<Rightarrow> search_from md5_at None h \<noteq> None) doc"

definition parse_search_results :: "anchor list \<Rightarrow> book list" where
  "parse_search_results doc = parse_loop (md5_links doc) {} []"

section \<open>\<open>_convert_results\<close>\<close>

record 'c entry =
  e_link :: string
  e_title :: string
  e_description :: string
  e_guid :: string
  e_comments :: string
  e_files :: string
  e_size :: string
  e_category :: 'c
  e_grabs :: string
  e_prefix :: string
  e_author :: string
  e_book_title :: string
  e_language :: string
  e_format :: string
  e_pub_ts :: "string option"

definition getprefix :: string where
  "getprefix = ''annas_archive''"

text \<open>\<open>book.get(key, default)\<close>.\<close>

definition get_or :: "book \<Rightarrow> string \<Rightarrow> string \<Rightarrow> string" where
  "get_or book k d = (case book k of None \<Rightarrow> d | Some v \<Rightarrow> v)"

text \<open>The body of the loop: the entry, or the exception that the \<open>except\<close> clause
  catches. \<open>upper\<close> is \<open>str.upper\<close> on the texts the parser stores, which are ASCII.\<close>

definition convert_book :: "book \<Rightarrow> 'c \<Rightarrow> exn + 'c entry" where
  "convert_book book cat =
     (let link = get_or book ''link'' [];
          title = get_or book ''title'' ''Unknown'';
          author = get_or book ''author'' ''Unknown'';
          file_format = map upper (get_or book ''extension'' []);
          size_str = get_or book ''size'' ''0MB'';
          language = get_or book ''language'' ''Unknown''
      in case convert_size_to_bytes (Some size_str) of
           Inl e \<Rightarrow> Inl e
         | Inr size_bytes \<Rightarrow>
             (let constructed_title = title @ '' - '' @ author;
                  constructed_title = (if file_format \<noteq> [] then constructed_title @ '' ('' @ file_format @ '')''
                                       else constructed_title);
                  description_parts = [title, author];
                  description_parts = (if language \<noteq> [] then description_parts @ [language]
                                       else description_parts);
                  description_parts = (if file_format \<noteq> [] then description_parts @ [file_format]
                                       else description_parts)
              in Inr \<lparr>e_link = link, e_title = constructed_title,
                      e_description = join '' | '' description_parts,
                      e_guid = link, e_comments = link, e_files = ''1'',
                      e_size = size_bytes, e_category = cat, e_grabs = ''100'',
                      e_prefix = getprefix, e_author = author, e_book_title = title,
                      e_language = language, e_format = file_format, e_pub_ts = None\<rparr>))"

fun convert_loop :: "book list \<Rightarrow> 'c \<Rightarrow> 'c entry list \<Rightarrow> 'c entry list" where
  "convert_loop [] cat results = results"
| "convert_loop (book # books) cat results =
     (case convert_book book cat of
        Inl e \<Rightarrow> convert_loop books cat results
      | Inr entry \<Rightarrow> convert_loop books cat (results @ [entry]))"

definition convert_results :: "book list \<Rightarrow> 'c \<Rightarrow> 'c entry list" where
  "convert_results books cat = convert_loop books cat []"

section \<open>\<open>search\<close>\<close>

text \<open>
  The collaborators of \<open>search\<close> are outside this file and are parameters: the two
  page fetchers of \<open>SeleniumHelper\<close>, \<open>urlencode\<close>, and the HTML parser, which gives the
  anchors of a page. A collaborator that raises returns \<open>Inl\<close> with the text of the
  exception.
\<close>

record 'h collaborators =
  urlencode :: "(string \<times> string) list \<Rightarrow> string"
  get_page_source :: "string \<Rightarrow> string + 'h"
  get_page_source_flaresolverr :: "string \<Rightarrow> string + 'h"
  soup_anchors :: "'h \<Rightarrow> string + anchor list"

record plugin =
  last_error :: "string option"

text \<open>The query is \<open>None\<close> for Python's \<open>None\<close>. The result is the returned list and the
  plugin after the call.\<close>

definition search :: "'h collaborators \<Rightarrow> plugin \<Rightarrow> string option \<Rightarrow> 'c \<Rightarrow> 'c entry list \<times> plugin" where
  "search env self query cat =
     (let self = self\<lparr>last_error := None\<rparr>
      in if query = None \<or> query = Some [] then ([], self\<lparr>last_error := Some ''Missing query''\<rparr>)
         else (let search_url = BASE_URL @ ''/search'';
                   full_url = search_url @ ''?'' @ urlencode env [(''q'', the query)];
                   fetched = (case get_page_source env full_url of
                                Inr html \<Rightarrow> Inr html
                              | Inl selenium_error \<Rightarrow> get_page_source_flaresolverr env full_url)
               in case fetched of
                    Inl e \<Rightarrow> ([], self\<lparr>last_error := Some e\<rparr>)
                  | Inr html \<Rightarrow>
                      (case soup_anchors env html of
                         Inl e \<Rightarrow> ([], self\<lparr>last_error := Some e\<rparr>)
                       | Inr doc \<Rightarrow>
                           (let books = parse_search_results doc;
                                results = convert_results books cat
                            in if results = [] then (results, self\<lparr>last_error := Some ''No results returned''\<rparr>)
                               else (results, self)))))"

section \<open>Notions for the properties of the parser\<close>

text \<open>The identifier a link carries: what the loop body extracts from its \<open>href\<close> before
  it looks at the set of seen identifiers; \<open>None\<close> when the body skips the link first.\<close>

definition link_md5 :: "anchor \<Rightarrow> string option" where
  "link_md5 link =
     (let href = (case a_href link of None \<Rightarrow> [] | Some h \<Rightarrow> h)
      in if href = [] \<or> \<not> contains ''/md5/'' href then None else search_from md5_at None href)"

text \<open>The record the loop body builds from a link when no identifier has been seen.\<close>

definition book_of :: "anchor \<Rightarrow> book option" where
  "book_of link = snd (parse_link link {})"


text \<open>Sample documents. \<open>book_anchor x t\<close> is an anchor \<open><a href="/md5/x">t</a>\<close> whose parent
  is the document itself.\<close>

definition book_anchor :: "string \<Rightarrow> string \<Rightarrow> anchor" where
  "book_anchor x t = \<lparr>a_href = Some (''/md5/'' @ x), a_strings = [t], a_container = None\<rparr>"

definition ids25 :: "string list" where
  "ids25 = [''a0'', ''a1'', ''a2'', ''a3'', ''a4'', ''a5'', ''a6'', ''a7'', ''a8'', ''a9'',
      ''b0'', ''b1'', ''b2'', ''b3'', ''b4'', ''b5'', ''b6'', ''b7'', ''b8'', ''b9'',
      ''c0'', ''c1'', ''c2'', ''c3'', ''c4'']"

definition doc25 :: "anchor list" where
  "doc25 = map (\<lambda>x. book_anchor x ''Book'') ids25"

definition twice :: "anchor list" where
  "twice = [book_anchor ''abc123'' ''First Book'', book_anchor ''abc123'' ''Second Book'']"

text \<open>An anchor without text in a container whose text is \<open>ab\<close>, and after it an anchor
  with the same identifier and a title.\<close>

definition short_first :: "anchor list" where
  "short_first = [\<lparr>a_href = Some ''/md5/abc123'', a_strings = [],
           a_container = Some \<lparr>c_strings = ['' ab ''], c_heading = None\<rparr>\<rparr>,
         book_anchor ''abc123'' ''Great Book'']"

section \<open>Evaluation\<close>

lemma eq_char_of_iff: "c = char_of (n :: nat) \<longleftrightarrow> take_bit 8 n = (of_char c :: nat)"
  using char_of_eq_iff [of n c] by auto

lemmas char_eval = is_digit_def is_space_def is_upper_ascii_def is_lower_ascii_def is_word_def
  lower_def upper_def is_numch_def is_hex_def is_author_ch_def char_of_eq_iff eq_char_of_iff

lemmas parse_eval = parse_search_results_def md5_links_def parse_link_def link_md5_def book_of_def
  contains_def md5_at_def derive_title_def context_text_of_def get_text_def strip_def
  make_book_def author_at_def author_group_def words_at_def size_at_def formats_def languages_def units_def
  word_boundary_def next_char_def last_char_def ci_prefix_def strip_chars_def BASE_URL_def
  Let_def char_eval



section \<open>The loop of the parser\<close>

lemma upd_opt_other: "k \<noteq> k' \<Longrightarrow> (case x of None \<Rightarrow> m | Some g \<Rightarrow> m(k \<mapsto> f g)) k' = m k'"
  by (cases x) auto

lemma upd_opt_pair_other:
  "k \<noteq> k' \<Longrightarrow> (case x of None \<Rightarrow> m | Some (a, b) \<Rightarrow> m(k \<mapsto> f a b)) k' = m k'"
  by (cases x) auto

lemma make_book_md5: "make_book href title md5 ctx ''md5'' = Some md5"
  by (simp add: make_book_def Let_def upd_opt_other upd_opt_pair_other)

lemma make_book_title: "make_book href title md5 ctx ''title'' = Some title"
  by (simp add: make_book_def Let_def upd_opt_other upd_opt_pair_other)

lemma parse_link_None: "link_md5 link = None \<Longrightarrow> parse_link link seen = (seen, None)"
  by (auto simp add: parse_link_def link_md5_def Let_def split: option.splits)

lemma parse_link_seen: "link_md5 link = Some x \<Longrightarrow> x \<in> seen \<Longrightarrow> parse_link link seen = (seen, None)"
  by (auto simp add: parse_link_def link_md5_def Let_def split: option.splits if_splits)

lemma parse_link_short:
  "link_md5 link = Some x \<Longrightarrow> x \<notin> seen \<Longrightarrow> length (derive_title link) < 3 \<Longrightarrow>
   parse_link link seen = (insert x seen, None)"
  by (auto simp add: parse_link_def link_md5_def Let_def split: option.splits if_splits)

lemma parse_link_new:
  "link_md5 link = Some x \<Longrightarrow> x \<notin> seen \<Longrightarrow> 3 \<le> length (derive_title link) \<Longrightarrow>
   parse_link link seen =
     (insert x seen, Some (make_book (the (a_href link)) (derive_title link) x (context_text_of link)))"
  by (auto simp add: parse_link_def link_md5_def Let_def split: option.splits if_splits)

lemma parse_link_cases:
  obtains (skip) "parse_link link seen = (seen, None)" "link_md5 link = None \<or> (\<exists>x. link_md5 link = Some x \<and> x \<in> seen)"
  | (short) x where "link_md5 link = Some x" "x \<notin> seen" "length (derive_title link) < 3"
      "parse_link link seen = (insert x seen, None)"
  | (new) x where "link_md5 link = Some x" "x \<notin> seen" "3 \<le> length (derive_title link)"
      "parse_link link seen =
         (insert x seen, Some (make_book (the (a_href link)) (derive_title link) x (context_text_of link)))"
proof (cases "link_md5 link")
  case None
  then show ?thesis using skip parse_link_None by blast
next
  case (Some x)
  show ?thesis
  proof (cases "x \<in> seen")
    case True
    then show ?thesis using skip Some parse_link_seen by blast
  next
    case False
    then show ?thesis using short new Some parse_link_short parse_link_new
      by (cases "length (derive_title link) < 3") (auto simp: not_less)
  qed
qed

lemma parse_loop_length: "length books < 25 \<Longrightarrow> length (parse_loop links seen books) \<le> 25"
proof (induction links arbitrary: seen books)
  case Nil
  then show ?case by simp
next
  case (Cons link links)
  show ?case
  proof (cases "parse_link link seen")
    case (Pair seen' r)
    show ?thesis
    proof (cases r)
      case None
      then show ?thesis using Pair Cons by simp
    next
      case (Some b)
      show ?thesis
      proof (cases "25 \<le> length (books @ [b])")
        case True
        then show ?thesis using Pair Some Cons.prems by (simp add: Let_def)
      next
        case False
        then have "length (books @ [b]) < 25" by simp
        from Cons.IH [OF this] show ?thesis using Pair Some False by (simp add: Let_def)
      qed
    qed
  qed
qed

lemma parse_loop_stop:
  "length books < 25 \<Longrightarrow> length (parse_loop links seen books) = 25 \<Longrightarrow>
   parse_loop (links @ rest) seen books = parse_loop links seen books"
proof (induction links arbitrary: seen books)
  case Nil
  then show ?case by simp
next
  case (Cons link links)
  show ?case
  proof (cases "parse_link link seen")
    case (Pair seen' r)
    show ?thesis
    proof (cases r)
      case None
      then show ?thesis using Pair Cons by simp
    next
      case (Some b)
      show ?thesis
      proof (cases "25 \<le> length (books @ [b])")
        case True
        then show ?thesis using Pair Some by (simp add: Let_def)
      next
        case False
        then have l: "length (books @ [b]) < 25" by simp
        have "length (parse_loop links seen' (books @ [b])) = 25"
          using Cons.prems(2) Pair Some False by (simp add: Let_def)
        from Cons.IH [OF l this] show ?thesis using Pair Some False by (simp add: Let_def)
      qed
    qed
  qed
qed

lemma parse_loop_news:
  "\<exists>news. parse_loop links seen books = books @ news \<and>
     distinct (map (\<lambda>b. b ''md5'') news) \<and>
     (\<forall>b \<in> set news. \<exists>x link. b ''md5'' = Some x \<and> x \<notin> seen \<and>
         find (\<lambda>l. link_md5 l = Some x) links = Some link \<and> book_of link = Some b)"
proof (induction links arbitrary: seen books)
  case Nil
  then show ?case by simp
next
  case (Cons link links)
  show ?case
  proof (cases link seen rule: parse_link_cases)
    case skip
    from Cons.IH [of seen books] obtain news where n: "parse_loop links seen books = books @ news"
      "distinct (map (\<lambda>b. b ''md5'') news)"
      "\<forall>b \<in> set news. \<exists>x link. b ''md5'' = Some x \<and> x \<notin> seen \<and>
         find (\<lambda>l. link_md5 l = Some x) links = Some link \<and> book_of link = Some b"
      by blast
    have "\<forall>b \<in> set news. \<exists>x l. b ''md5'' = Some x \<and> x \<notin> seen \<and>
         find (\<lambda>l. link_md5 l = Some x) (link # links) = Some l \<and> book_of l = Some b"
    proof
      fix b assume "b \<in> set news"
      with n(3) obtain x l where x: "b ''md5'' = Some x" "x \<notin> seen"
        "find (\<lambda>l. link_md5 l = Some x) links = Some l" "book_of l = Some b" by blast
      have "link_md5 link \<noteq> Some x" using skip(2) x(2) by auto
      then show "\<exists>x l. b ''md5'' = Some x \<and> x \<notin> seen \<and>
         find (\<lambda>l. link_md5 l = Some x) (link # links) = Some l \<and> book_of l = Some b"
        using x by auto
    qed
    then show ?thesis using n(1,2) skip(1) by auto
  next
    case (short x)
    from Cons.IH [of "insert x seen" books] obtain news where n: "parse_loop links (insert x seen) books = books @ news"
      "distinct (map (\<lambda>b. b ''md5'') news)"
      "\<forall>b \<in> set news. \<exists>y link. b ''md5'' = Some y \<and> y \<notin> insert x seen \<and>
         find (\<lambda>l. link_md5 l = Some y) links = Some link \<and> book_of link = Some b"
      by blast
    have "\<forall>b \<in> set news. \<exists>y l. b ''md5'' = Some y \<and> y \<notin> seen \<and>
         find (\<lambda>l. link_md5 l = Some y) (link # links) = Some l \<and> book_of l = Some b"
    proof
      fix b assume "b \<in> set news"
      with n(3) obtain y l where y: "b ''md5'' = Some y" "y \<notin> insert x seen"
        "find (\<lambda>l. link_md5 l = Some y) links = Some l" "book_of l = Some b" by blast
      have "link_md5 link \<noteq> Some y" using short(1) y(2) by auto
      then show "\<exists>y l. b ''md5'' = Some y \<and> y \<notin> seen \<and>
         find (\<lambda>l. link_md5 l = Some y) (link # links) = Some l \<and> book_of l = Some b"
        using y by auto
    qed
    then show ?thesis using n(1,2) short(4) by auto
  next
    case (new x)
    define bk where "bk = make_book (the (a_href link)) (derive_title link) x (context_text_of link)"
    have bk_md5: "bk ''md5'' = Some x" by (simp add: bk_def make_book_md5)
    have bk_of: "book_of link = Some bk"
      using parse_link_new [of link x "{}"] new(1,3) by (simp add: book_of_def bk_def)
    have pl: "parse_link link seen = (insert x seen, Some bk)" using new(4) by (simp add: bk_def)
    have first: "find (\<lambda>l. link_md5 l = Some x) (link # links) = Some link" using new(1) by simp
    show ?thesis
    proof (cases "25 \<le> length (books @ [bk])")
      case True
      then have "parse_loop (link # links) seen books = books @ [bk]" using pl by (simp add: Let_def)
      then show ?thesis using bk_md5 bk_of first new(2) by auto
    next
      case False
      from Cons.IH [of "insert x seen" "books @ [bk]"] obtain news where
        n: "parse_loop links (insert x seen) (books @ [bk]) = (books @ [bk]) @ news"
        "distinct (map (\<lambda>b. b ''md5'') news)"
        "\<forall>b \<in> set news. \<exists>y link. b ''md5'' = Some y \<and> y \<notin> insert x seen \<and>
           find (\<lambda>l. link_md5 l = Some y) links = Some link \<and> book_of link = Some b"
        by blast
      have eq: "parse_loop (link # links) seen books = books @ (bk # news)"
        using pl False n(1) by (simp add: Let_def)
      have notin: "bk ''md5'' \<notin> set (map (\<lambda>b. b ''md5'') news)"
        using n(3) bk_md5 by auto
      have all: "\<forall>b \<in> set (bk # news). \<exists>y l. b ''md5'' = Some y \<and> y \<notin> seen \<and>
         find (\<lambda>l. link_md5 l = Some y) (link # links) = Some l \<and> book_of l = Some b"
      proof
        fix b assume b: "b \<in> set (bk # news)"
        show "\<exists>y l. b ''md5'' = Some y \<and> y \<notin> seen \<and>
         find (\<lambda>l. link_md5 l = Some y) (link # links) = Some l \<and> book_of l = Some b"
        proof (cases "b = bk")
          case True
          then show ?thesis using bk_md5 bk_of first new(2) by blast
        next
          case False
          with b have "b \<in> set news" by simp
          with n(3) obtain y l where y: "b ''md5'' = Some y" "y \<notin> insert x seen"
            "find (\<lambda>l. link_md5 l = Some y) links = Some l" "book_of l = Some b" by blast
          have "link_md5 link \<noteq> Some y" using new(1) y(2) by auto
          then show ?thesis using y by auto
        qed
      qed
      show ?thesis using eq n(2) notin all by (intro exI [of _ "bk # news"]) simp
    qed
  qed
qed

lemma find_filter: "(\<And>x. P x \<Longrightarrow> Q x) \<Longrightarrow> find P (filter Q xs) = find P xs"
  by (induction xs) auto

lemma link_md5_md5_links: "find (\<lambda>l. link_md5 l = Some x) (md5_links doc) = find (\<lambda>l. link_md5 l = Some x) doc"
  unfolding md5_links_def
  by (rule find_filter) (auto simp add: link_md5_def Let_def split: option.splits if_splits)

lemma parse_results_first:
  "distinct (map (\<lambda>b. b ''md5'') (parse_search_results doc)) \<and>
   (\<forall>b \<in> set (parse_search_results doc). \<exists>x link. b ''md5'' = Some x \<and>
       find (\<lambda>l. link_md5 l = Some x) doc = Some link \<and> book_of link = Some b)"
  using parse_loop_news [of "md5_links doc" "{}" "[]"]
  by (auto simp add: parse_search_results_def link_md5_md5_links)

lemma book_of_short: "length (derive_title link) < 3 \<Longrightarrow> book_of link = None"
  by (cases link "{} :: string set" rule: parse_link_cases) (auto simp add: book_of_def)


section \<open>\<open>search\<close>: the missing query\<close>

text \<open>
  C9. For every category token, \<open>search\<close> with an empty or missing query returns the
  empty list, raises nothing, and leaves \<open>last_error\<close> at "Missing query", whatever
  the collaborators and the error of an earlier call were.
\<close>

theorem search_missing_query:
  "query = None \<or> query = Some [] \<Longrightarrow>
   search env self query cat = ([], self\<lparr>last_error := Some ''Missing query''\<rparr>)"
  by (auto simp add: search_def)

theorem search_missing_query_witness:
  "(Some [] = (None :: string option) \<or> Some [] = Some ([] :: string)) \<and>
   search \<lparr>urlencode = (\<lambda>ps. []), get_page_source = (\<lambda>u. Inl ''down''),
            get_page_source_flaresolverr = (\<lambda>u. (Inl ''down'' :: string + unit)),
            soup_anchors = (\<lambda>h. Inr [])\<rparr>
     \<lparr>last_error = Some ''No results returned''\<rparr> (Some []) ''7020''
   = ([], \<lparr>last_error = Some ''Missing query''\<rparr>)"
  using search_missing_query [of "Some []"
      "\<lparr>urlencode = (\<lambda>ps. []), get_page_source = (\<lambda>u. Inl ''down''),
        get_page_source_flaresolverr = (\<lambda>u. (Inl ''down'' :: string + unit)),
        soup_anchors = (\<lambda>h. Inr [])\<rparr>"
      "\<lparr>last_error = Some ''No results returned''\<rparr>" "''7020''"]
  by simp

section \<open>Documents of plain anchors\<close>

lemma takeWhile_all: "list_all P xs \<Longrightarrow> takeWhile P xs = xs"
  by (induction xs) auto

lemma md5_search_plain:
  "x \<noteq> [] \<Longrightarrow> list_all is_hex x \<Longrightarrow> search_from md5_at None (''/md5/'' @ x) = Some x"
  by (simp add: md5_at_def takeWhile_all)

lemma contains_md5_plain: "contains ''/md5/'' (''/md5/'' @ x)"
  by (simp add: contains_def)

lemma link_md5_book_anchor:
  "x \<noteq> [] \<Longrightarrow> list_all is_hex x \<Longrightarrow> link_md5 (book_anchor x t) = Some x"
  using md5_search_plain [of x] contains_md5_plain [of x]
  by (simp add: link_md5_def book_anchor_def)

lemma derive_title_book_anchor: "derive_title (book_anchor x t) = strip t"
  by (simp add: derive_title_def book_anchor_def get_text_def)

lemma md5_links_book_anchors:
  assumes "\<forall>x \<in> set xs. x \<noteq> [] \<and> list_all is_hex x"
  shows "md5_links (map (\<lambda>x. book_anchor x t) xs) = map (\<lambda>x. book_anchor x t) xs"
proof -
  have "search_from md5_at None (''/md5/'' @ x) \<noteq> None" if "x \<in> set xs" for x
    using that md5_search_plain [of x] assms by auto
  then show ?thesis
    unfolding md5_links_def by (auto simp add: book_anchor_def filter_id_conv)
qed

lemma parse_loop_book_anchors:
  "distinct xs \<Longrightarrow> set xs \<inter> seen = {} \<Longrightarrow> \<forall>x \<in> set xs. x \<noteq> [] \<and> list_all is_hex x \<Longrightarrow>
   3 \<le> length (strip t) \<Longrightarrow> length books < 25 \<Longrightarrow>
   length (parse_loop (map (\<lambda>x. book_anchor x t) xs) seen books) = min 25 (length books + length xs)"
proof (induction xs arbitrary: seen books)
  case Nil
  then show ?case by simp
next
  case (Cons x xs)
  define bk where "bk = make_book (the (a_href (book_anchor x t))) (derive_title (book_anchor x t)) x
                       (context_text_of (book_anchor x t))"
  have m: "link_md5 (book_anchor x t) = Some x" using Cons.prems(3) by (simp add: link_md5_book_anchor)
  have ns: "x \<notin> seen" using Cons.prems(2) by auto
  have t3: "3 \<le> length (derive_title (book_anchor x t))"
    using Cons.prems(4) by (simp only: derive_title_book_anchor)
  have pl: "parse_link (book_anchor x t) seen = (insert x seen, Some bk)"
    unfolding bk_def by (rule parse_link_new [OF m ns t3])
  show ?case
  proof (cases "25 \<le> Suc (length books)")
    case True
    have "parse_loop (map (\<lambda>x. book_anchor x t) (x # xs)) seen books = books @ [bk]"
      using pl True by (simp add: Let_def)
    then show ?thesis using True Cons.prems(5) by simp
  next
    case False
    have d: "distinct xs" using Cons.prems(1) by simp
    have i: "set xs \<inter> insert x seen = {}" using Cons.prems(1,2) by auto
    have h: "\<forall>x \<in> set xs. x \<noteq> [] \<and> list_all is_hex x" using Cons.prems(3) by simp
    have l: "length (books @ [bk]) < 25" using False by simp
    have ih: "length (parse_loop (map (\<lambda>x. book_anchor x t) xs) (insert x seen) (books @ [bk]))
          = min 25 (length (books @ [bk]) + length xs)"
      by (rule Cons.IH [OF d i h Cons.prems(4) l])
    have "parse_loop (map (\<lambda>x. book_anchor x t) (x # xs)) seen books
          = parse_loop (map (\<lambda>x. book_anchor x t) xs) (insert x seen) (books @ [bk])"
      using pl False by (simp add: Let_def)
    then show ?thesis using ih by simp
  qed
qed

lemma doc25_len: "length (parse_search_results doc25) = 25"
proof -
  have h: "\<forall>x \<in> set ids25. x \<noteq> [] \<and> list_all is_hex x" by (simp add: ids25_def char_eval)
  have d: "distinct ids25" by (simp add: ids25_def)
  have s: "3 \<le> length (strip ''Book'')" by (simp add: strip_def char_eval)
  have e: "set ids25 \<inter> {} = {}" by simp
  have l: "length ([] :: book list) < 25" by simp
  have "length (parse_loop (map (\<lambda>x. book_anchor x ''Book'') ids25) {} []) = min 25 (length ([] :: book list) + length ids25)"
    by (rule parse_loop_book_anchors [OF d e h s l])
  moreover have "length ids25 = 25" by (simp add: ids25_def)
  ultimately show ?thesis
    unfolding parse_search_results_def doc25_def md5_links_book_anchors [OF h] by simp
qed

section \<open>The cap of 25 records\<close>

text \<open>
  C6. For every document the parser returns at most 25 records, and accumulation stops
  at the 25th: once a document has given 25 records, whatever anchors follow it in the
  document are not read, so the result stays the same.
\<close>

theorem parse_at_most_25:
  "length (parse_search_results doc) \<le> 25 \<and>
   (length (parse_search_results doc) = 25 \<longrightarrow>
      parse_search_results (doc @ rest) = parse_search_results doc)"
  using parse_loop_length [of "[]" "md5_links doc" "{}"]
    parse_loop_stop [of "[]" "md5_links doc" "{}" "md5_links rest"]
  by (simp add: parse_search_results_def md5_links_def)

theorem parse_at_most_25_witness:
  "length (parse_search_results doc25) = 25 \<and>
   parse_search_results (doc25 @ [book_anchor ''c5'' ''One more'']) = parse_search_results doc25"
  using parse_at_most_25 [of doc25 "[book_anchor ''c5'' ''One more'']"] doc25_len by simp

section \<open>One record for each identifier\<close>

text \<open>
  C8. For every document, no two records of the result carry the same md5 identifier,
  however many anchors carry it, and the record of an identifier is the one the loop
  body builds from the first anchor of the document that carries it.
\<close>

theorem parse_unique_md5:
  "distinct (map (\<lambda>b. b ''md5'') (parse_search_results doc)) \<and>
   (\<forall>b \<in> set (parse_search_results doc). \<exists>x link. b ''md5'' = Some x \<and>
       find (\<lambda>l. link_md5 l = Some x) doc = Some link \<and> book_of link = Some b)"
  by (rule parse_results_first)

theorem parse_unique_md5_witness:
  "length (parse_search_results twice) = 1 \<and>
   hd (parse_search_results twice) ''md5'' = Some ''abc123'' \<and>
   hd (parse_search_results twice) ''title'' = Some ''First Book'' \<and>
   book_of (book_anchor ''abc123'' ''First Book'') = Some (hd (parse_search_results twice))"
proof -
  have len: "length (parse_search_results twice) = 1"
    by (simp add: twice_def book_anchor_def parse_eval)
  have md5: "hd (parse_search_results twice) ''md5'' = Some ''abc123''"
    by (simp add: twice_def book_anchor_def parse_eval)
  have title: "hd (parse_search_results twice) ''title'' = Some ''First Book''"
    by (simp add: twice_def book_anchor_def parse_eval)
  have first: "find (\<lambda>l. link_md5 l = Some ''abc123'') twice = Some (book_anchor ''abc123'' ''First Book'')"
    by (simp add: twice_def book_anchor_def parse_eval)
  from len have "hd (parse_search_results twice) \<in> set (parse_search_results twice)"
    by (cases "parse_search_results twice") auto
  with parse_unique_md5 [of twice] obtain x link where
    "hd (parse_search_results twice) ''md5'' = Some x"
    "find (\<lambda>l. link_md5 l = Some x) twice = Some link"
    "book_of link = Some (hd (parse_search_results twice))"
    by blast
  with md5 first len title show ?thesis by simp
qed

section \<open>A discarded candidate keeps its identifier\<close>

text \<open>
  C10. The identifier of a link is added to the set of seen identifiers before the title
  is checked. So when the first anchor of a document that carries an identifier is
  discarded for a title shorter than 3 characters, no record of the result carries
  that identifier, whatever anchors follow.
\<close>

theorem discarded_first_consumes_md5:
  assumes "find (\<lambda>l. link_md5 l = Some x) doc = Some link"
    and "length (derive_title link) < 3"
  shows "(\<forall>b \<in> set (parse_search_results doc). b ''md5'' \<noteq> Some x) \<and>
         (x \<notin> seen \<longrightarrow> parse_link link seen = (insert x seen, None))"
proof -
  have m: "link_md5 link = Some x"
    using assms(1) by (auto simp add: find_Some_iff)
  have "b ''md5'' \<noteq> Some x" if "b \<in> set (parse_search_results doc)" for b
  proof
    assume "b ''md5'' = Some x"
    with parse_results_first [of doc] that assms(1) have "book_of link = Some b" by fastforce
    with book_of_short [OF assms(2)] show False by simp
  qed
  then show ?thesis using parse_link_short [OF m _ assms(2)] by blast
qed

theorem discarded_first_consumes_md5_witness:
  "find (\<lambda>l. link_md5 l = Some ''abc123'') short_first = Some (hd short_first) \<and>
   length (derive_title (hd short_first)) < 3 \<and>
   list_all (\<lambda>b. b ''md5'' \<noteq> Some ''abc123'') (parse_search_results short_first) \<and>
   parse_link (hd short_first) {} = ({''abc123''}, None) \<and>
   parse_search_results short_first = [] \<and>
   length (parse_search_results (tl short_first)) = 1"
proof -
  have f: "find (\<lambda>l. link_md5 l = Some ''abc123'') short_first = Some (hd short_first)"
    by (simp add: short_first_def book_anchor_def parse_eval)
  have t: "length (derive_title (hd short_first)) < 3"
    by (simp add: short_first_def book_anchor_def parse_eval)
  have e: "parse_search_results short_first = []"
    by (simp add: short_first_def book_anchor_def parse_eval)
  have o: "length (parse_search_results (tl short_first)) = 1"
    by (simp add: short_first_def book_anchor_def parse_eval)
  from discarded_first_consumes_md5 [OF f t, of "{}"] f t e o show ?thesis
    by (simp add: list_all_iff)
qed

end
